theory Spec2Isabelle
  imports Complex_Main "HOL-Library.Word"
begin

section \<open>JavaScript values\<close>

text \<open>
  A JavaScript string is a sequence of 16-bit code units. Source literals are written
  with \<open>ascii\<close>; code units outside printable ASCII are written as numbers, exactly as
  the source files hold them.
\<close>

type_synonym jschar = "16 word"
type_synonym jstring = "jschar list"

definition ascii :: "string \<Rightarrow> jstring" where
  "ascii s = map (\<lambda>c. word_of_nat (of_char c)) s"

text \<open>
  A value read from JSON. A number is kept as the rational it stands for; the program
  only passes numbers on and tests them for zero. An object is the list of its own
  properties; a property read takes the first entry with the name.
\<close>

datatype json =
    JNull
  | JBool bool
  | JNum rat
  | JStr jstring
  | JArr "json list"
  | JObj "(jstring \<times> json) list"

text \<open>
  The property names the program reads. None of them is an array index, \<open>length\<close> or a
  name found on a prototype, so on an array, a string, a number or a boolean the read
  gives \<open>undefined\<close>. \<open>undefined\<close> is \<open>None\<close> of \<open>json option\<close>.
\<close>

datatype field =
  Role | Content | Messages | Temperature | Fallback | Success | Status | ErrorField

fun field_name :: "field \<Rightarrow> jstring" where
  "field_name Role = ascii ''role''"
| "field_name Content = ascii ''content''"
| "field_name Messages = ascii ''messages''"
| "field_name Temperature = ascii ''temperature''"
| "field_name Fallback = ascii ''fallback''"
| "field_name Success = ascii ''success''"
| "field_name Status = ascii ''status''"
| "field_name ErrorField = ascii ''error''"

datatype exn = TypeError | Error

text \<open>\<open>v.f\<close>: reading a property of \<open>null\<close> throws a TypeError.\<close>

fun js_get :: "json \<Rightarrow> field \<Rightarrow> exn + json option" where
  "js_get JNull f = Inl TypeError"
| "js_get (JObj kvs) f = Inr (map_of kvs (field_name f))"
| "js_get v f = Inr None"

text \<open>Truthiness of a value (\<open>!v\<close> is its negation).\<close>

fun js_truthy :: "json option \<Rightarrow> bool" where
  "js_truthy None = False"
| "js_truthy (Some JNull) = False"
| "js_truthy (Some (JBool b)) = b"
| "js_truthy (Some (JNum n)) = (n \<noteq> 0)"
| "js_truthy (Some (JStr s)) = (s \<noteq> [])"
| "js_truthy (Some (JArr xs)) = True"
| "js_truthy (Some (JObj kvs)) = True"

text \<open>\<open>Array.isArray\<close>.\<close>

fun isArray :: "json option \<Rightarrow> bool" where
  "isArray (Some (JArr xs)) = True"
| "isArray v = False"

text \<open>
  An object literal as \<open>JSON.stringify\<close> writes it: a property whose value is
  \<open>undefined\<close> is left out.
\<close>

fun obj :: "(jstring \<times> json option) list \<Rightarrow> (jstring \<times> json) list" where
  "obj [] = []"
| "obj ((k, None) # kvs) = obj kvs"
| "obj ((k, Some v) # kvs) = (k, v) # obj kvs"

text \<open>\<open>xs[i]\<close> for an integer \<open>i\<close>: \<open>undefined\<close> out of range.\<close>

definition js_index :: "'a list \<Rightarrow> int \<Rightarrow> 'a option" where
  "js_index xs i = (if 0 \<le> i \<and> i < int (length xs) then Some (xs ! nat i) else None)"

text \<open>
  \<open>Math.floor(Math.random() * xs.length)\<close>, for the value \<open>u\<close> that \<open>Math.random()\<close>
  returned (a number with \<open>0 \<le> u < 1\<close>).
\<close>

definition random_index :: "rat \<Rightarrow> 'a list \<Rightarrow> int" where
  "random_index u xs = \<lfloor>u * of_nat (length xs)\<rfloor>"

text \<open>A natural number in a template literal: its decimal digits.\<close>

fun show_nat :: "nat \<Rightarrow> jstring" where
  "show_nat n =
     (if n < 10 then [word_of_nat (48 + n)]
      else show_nat (n div 10) @ [word_of_nat (48 + n mod 10)])"

section \<open>The relay: server.js\<close>

subsection \<open>DeepSeekService.generateResponse\<close>

text \<open>
  What the \<open>try\<close> block of \<open>generateResponse\<close> does is decided by the upstream service
  and the network: either line 90 returns, with the content and the usage read from the
  response, or an exception reaches the \<open>catch\<close> block. The exception is an axios error
  with a response (any status outside 2xx), an axios error without a response, whose
  \<open>code\<close> says what failed (\<open>ECONNABORTED\<close> when the 30 second timeout fired), or an
  error thrown by lines 92 and 96, which has neither a response nor a code.
\<close>

record js_error =
  response_status :: "nat option"
  code :: "jstring option"

datatype axios_outcome =
    Completed "json option" "json option"
  | Failed js_error

text \<open>The object \<open>generateResponse\<close> returns: success with content and usage, or
  failure with \<open>error\<close> and \<open>code\<close>.\<close>

datatype gen_result =
    GenOk "json option" "json option"
  | GenFail jstring jstring

text \<open>The body posted upstream (lines 70 to 79); \<open>temperature\<close> defaults to 0.7.\<close>

definition completion_request :: "json list \<Rightarrow> json option \<Rightarrow> json" where
  "completion_request messages temperature =
     JObj [(ascii ''model'', JStr (ascii ''deepseek-chat'')),
           (ascii ''messages'', JArr messages),
           (ascii ''temperature'', (case temperature of None \<Rightarrow> JNum (7 / 10) | Some t \<Rightarrow> t)),
           (ascii ''max_tokens'', JNum 800),
           (ascii ''top_p'', JNum (95 / 100)),
           (ascii ''frequency_penalty'', JNum (3 / 10)),
           (ascii ''presence_penalty'', JNum (2 / 10)),
           (ascii ''stream'', JBool False)]"

text \<open>The \<open>catch\<close> block, lines 98 to 143.\<close>

definition generateResponse_catch :: "js_error \<Rightarrow> gen_result" where
  "generateResponse_catch e =
     (case response_status e of
        Some st \<Rightarrow>
          (if st = 401 then
             GenFail (ascii ''Invalid API key. Please check your DeepSeek API key.'')
                     (ascii ''INVALID_API_KEY'')
           else if st = 429 then
             GenFail (ascii ''Rate limit exceeded. Please try again later.'')
                     (ascii ''RATE_LIMITED'')
           else if st = 503 \<or> st = 504 then
             GenFail (ascii ''DeepSeek service is temporarily unavailable.'')
                     (ascii ''SERVICE_UNAVAILABLE'')
           else
             GenFail (ascii ''API error: '' @ show_nat st) (ascii ''API_ERROR''))
      | None \<Rightarrow>
          (if code e = Some (ascii ''ECONNABORTED'') then
             GenFail (ascii ''Request timeout. The server took too long to respond.'')
                     (ascii ''TIMEOUT'')
           else
             GenFail (ascii ''Network error. Could not reach DeepSeek API.'')
                     (ascii ''NETWORK_ERROR'')))"

definition generateResponse ::
  "(json \<Rightarrow> axios_outcome) \<Rightarrow> json list \<Rightarrow> json option \<Rightarrow> gen_result" where
  "generateResponse upstream messages temperature =
     (case upstream (completion_request messages temperature) of
        Completed content usage \<Rightarrow> GenOk content usage
      | Failed e \<Rightarrow> generateResponse_catch e)"

subsection \<open>POST /api/chat\<close>

record http_response =
  status :: nat
  body :: json

definition persona :: json where
  "persona =
     JObj [(ascii ''role'', JStr (ascii ''system'')),
           (ascii ''content'', JStr (ascii
  ''You are Guruji, a wise, compassionate spiritual teacher. You speak in calm, metaphorical language. Offer profound yet practical wisdom. Keep responses concise (2-4 sentences). Use Sanskrit terms occasionally. You embody patience and ancient wisdom.''))]"

text \<open>\<open>msg.role === 'system'\<close>.\<close>

definition is_system :: "json \<Rightarrow> exn + bool" where
  "is_system msg =
     (case js_get msg Role of
        Inl e \<Rightarrow> Inl e
      | Inr r \<Rightarrow> Inr (r = Some (JStr (ascii ''system''))))"

text \<open>\<open>messages.some(msg => msg.role === 'system')\<close>: stops at the first hit; an
  exception of the callback ends it.\<close>

fun hasSystemPrompt :: "json list \<Rightarrow> exn + bool" where
  "hasSystemPrompt [] = Inr False"
| "hasSystemPrompt (msg # msgs) =
     (case is_system msg of
        Inl e \<Rightarrow> Inl e
      | Inr True \<Rightarrow> Inr True
      | Inr False \<Rightarrow> hasSystemPrompt msgs)"

definition fallbackResponses :: "jstring list" where
  "fallbackResponses =
     [[0x11F, 0x178, 0x152, 0xBF] @ ascii
        '' The cosmic connection is momentarily interrupted. Please try again in a moment.'',
      [0x11F, 0x178, 0x2022, 0x2030, 0xEF, 0xB8] @ ascii
        '' I feel the energy shifting. Let us wait a breath before continuing.'',
      [0x11F, 0x178, 0x201C, 0x153] @ ascii
        '' The ancient scrolls are being redacted. The sage will return shortly.'',
      [0xE2, 0x153, 0xA8] @ ascii
        '' The stars need realignment. Guruji will be with you soon.'']"

text \<open>
  What the handler does up to line 190: it answers 400 (lines 167 to 173), or an
  exception takes it to the \<open>catch\<close> of line 215, or it calls \<open>generateResponse\<close> with
  \<open>chatMessages\<close> and \<open>temperature\<close>.
\<close>

datatype prepared =
    Reject http_response
  | Crash exn
  | Call "json list" json

definition invalid_request :: http_response where
  "invalid_request =
     \<lparr>status = 400,
      body = JObj (obj [(ascii ''success'', Some (JBool False)),
                        (ascii ''error'', Some (JStr (ascii
                           ''Invalid request format. Expected messages array.''))),
                        (ascii ''code'', Some (JStr (ascii ''INVALID_REQUEST'')))])\<rparr>"

definition server_error :: http_response where
  "server_error =
     \<lparr>status = 500,
      body = JObj (obj [(ascii ''success'', Some (JBool False)),
                        (ascii ''error'', Some (JStr (ascii ''Internal server error''))),
                        (ascii ''code'', Some (JStr (ascii ''SERVER_ERROR'')))])\<rparr>"

definition chat_prepare :: "json \<Rightarrow> prepared" where
  "chat_prepare req_body =
     (case js_get req_body Messages of
        Inl e \<Rightarrow> Crash e
      | Inr messages \<Rightarrow>
          (case js_get req_body Temperature of
             Inl e \<Rightarrow> Crash e
           | Inr t \<Rightarrow>
               (let temperature = (case t of None \<Rightarrow> JNum (7 / 10) | Some v \<Rightarrow> v) in
                if \<not> js_truthy messages \<or> \<not> isArray messages then Reject invalid_request
                else
                  (case messages of
                     Some (JArr msgs) \<Rightarrow>
                       (case hasSystemPrompt msgs of
                          Inl e \<Rightarrow> Crash e
                        | Inr True \<Rightarrow> Call msgs temperature
                        | Inr False \<Rightarrow> Call (persona # msgs) temperature)
                   | _ \<Rightarrow> Reject invalid_request))))"

text \<open>Lines 192 to 214: the answer for a result of \<open>generateResponse\<close>, with the
  value \<open>u\<close> of \<open>Math.random()\<close> and the timestamp \<open>now\<close>.\<close>

definition chat_respond :: "gen_result \<Rightarrow> rat \<Rightarrow> jstring \<Rightarrow> http_response" where
  "chat_respond result u now =
     (case result of
        GenOk content usage \<Rightarrow>
          \<lparr>status = 200,
           body = JObj (obj [(ascii ''success'', Some (JBool True)),
                             (ascii ''content'', content),
                             (ascii ''usage'', usage),
                             (ascii ''timestamp'', Some (JStr now))])\<rparr>
      | GenFail err cd \<Rightarrow>
          \<lparr>status = 503,
           body = JObj (obj [(ascii ''success'', Some (JBool False)),
                             (ascii ''error'', Some (JStr err)),
                             (ascii ''code'', Some (JStr cd)),
                             (ascii ''fallback'',
                                map_option JStr
                                  (js_index fallbackResponses
                                     (random_index u fallbackResponses)))])\<rparr>)"

text \<open>The whole handler: the response, and the body posted upstream when the call
  was made.\<close>

definition chat_route ::
  "(json \<Rightarrow> axios_outcome) \<Rightarrow> rat \<Rightarrow> jstring \<Rightarrow> json \<Rightarrow> http_response \<times> json option" where
  "chat_route upstream u now req_body =
     (case chat_prepare req_body of
        Reject r \<Rightarrow> (r, None)
      | Crash e \<Rightarrow> (server_error, None)
      | Call chatMessages temperature \<Rightarrow>
          (chat_respond (generateResponse upstream chatMessages (Some temperature)) u now,
           Some (completion_request chatMessages (Some temperature))))"

section \<open>The client: script.js\<close>

text \<open>
  The fields of \<open>GurujiChat\<close> and the parts of the page it writes: the value and the
  \<open>disabled\<close> flag of the input, the \<open>disabled\<close> flag of the send button, the bubbles of
  the chat window (text, and whether it is the user's), whether the typing area is
  hidden, the class name of the status indicator and the status text. The typing area
  and the two status elements are tested for existence by the code, so they are options.
  Focus and scroll position are left out.
\<close>

record client =
  isProcessing :: bool
  sessionId :: jstring
  messageHistory :: "json list"
  reconnectAttempts :: nat
  maxReconnectAttempts :: nat
  userInput_value :: jstring
  userInput_disabled :: bool
  sendBtn_disabled :: bool
  chatWindow :: "(jstring \<times> bool) list"
  typingArea_hidden :: "bool option"
  statusIndicator_className :: "jstring option"
  statusText_textContent :: "jstring option"

text \<open>The state the constructor sets (lines 15 to 19), on a page whose elements exist,
  with the session id it generated.\<close>

definition GurujiChat :: "jstring \<Rightarrow> client" where
  "GurujiChat sid =
     \<lparr>isProcessing = False,
      sessionId = sid,
      messageHistory = [],
      reconnectAttempts = 0,
      maxReconnectAttempts = 3,
      userInput_value = [],
      userInput_disabled = False,
      sendBtn_disabled = False,
      chatWindow = [],
      typingArea_hidden = Some True,
      statusIndicator_className = Some (ascii ''status-indicator''),
      statusText_textContent = Some []\<rparr>"

text \<open>
  What \<open>fetch\<close> followed by \<open>response.json()\<close> gives: an exception (no connection, or a
  body that is not JSON), or \<open>response.ok\<close> and the parsed body.
\<close>

datatype fetch_outcome =
    Rejected
  | Responded bool json

subsection \<open>checkConnection\<close>

definition updateConnectionStatus :: "jstring \<Rightarrow> jstring \<Rightarrow> client \<Rightarrow> client" where
  "updateConnectionStatus st message c =
     (if statusIndicator_className c \<noteq> None \<and> statusText_textContent c \<noteq> None then
        c\<lparr>statusIndicator_className := Some (ascii ''status-indicator '' @ st),
          statusText_textContent := Some message\<rparr>
      else c)"

text \<open>Lines 57 to 65: the \<open>try\<close> block reaches line 61 exactly when this holds.\<close>

definition probe_ok :: "fetch_outcome \<Rightarrow> bool" where
  "probe_ok outcome =
     (case outcome of
        Rejected \<Rightarrow> False
      | Responded ok data \<Rightarrow>
          ok \<and> js_get data Status = Inr (Some (JStr (ascii ''healthy''))))"

text \<open>
  One run of \<open>checkConnection\<close> for the outcome of its probe: the new state, and the
  delay of the timer it sets for its next run, if it sets one.
\<close>

definition checkConnection :: "fetch_outcome \<Rightarrow> client \<Rightarrow> client \<times> nat option" where
  "checkConnection outcome c =
     (let c1 = updateConnectionStatus (ascii ''connecting'')
                 (ascii ''Connecting to Guruji's sanctuary...'') c
      in if probe_ok outcome then
           ((updateConnectionStatus (ascii ''connected'') (ascii ''Connected to DeepSeek wisdom'')
               c1) \<lparr>reconnectAttempts := 0\<rparr>,
            None)
         else
           (let c2 = c1\<lparr>reconnectAttempts := reconnectAttempts c1 + 1\<rparr>
            in if reconnectAttempts c2 \<le> maxReconnectAttempts c2 then
                 (updateConnectionStatus (ascii ''connecting'')
                    (ascii ''Reconnecting... Attempt '' @ show_nat (reconnectAttempts c2) @
                     ascii ''/'' @ show_nat (maxReconnectAttempts c2)) c2,
                  Some 2000)
               else
                 (updateConnectionStatus (ascii ''error'')
                    (ascii ''Cannot reach Guruji. Please refresh.'') c2,
                  None)))"

text \<open>
  The runs of \<open>checkConnection\<close> that follow one another through the timer, for the
  outcomes of the successive probes: the final state, and the outcomes not consumed.
\<close>

fun checkConnection_runs :: "fetch_outcome list \<Rightarrow> client \<Rightarrow> client \<times> fetch_outcome list" where
  "checkConnection_runs [] c = (c, [])"
| "checkConnection_runs (outcome # outcomes) c =
     (case checkConnection outcome c of
        (c', Some delay) \<Rightarrow> checkConnection_runs outcomes c'
      | (c', None) \<Rightarrow> (c', outcomes))"

subsection \<open>Rendering\<close>

text \<open>
  \<open>addMessageToChat\<close>: for a string the bubble is appended (as text, or as text and link
  nodes with the same characters). For any other value \<open>formatMessage\<close> hands the value
  back or fails on \<open>split\<close>, and \<open>appendChild\<close> of a value that is no node throws, all
  before the chat window is touched.
\<close>

definition addMessageToChat :: "json option \<Rightarrow> bool \<Rightarrow> client \<Rightarrow> exn + client" where
  "addMessageToChat content isUser c =
     (case content of
        Some (JStr s) \<Rightarrow> Inr (c\<lparr>chatWindow := chatWindow c @ [(s, isUser)]\<rparr>)
      | _ \<Rightarrow> Inl TypeError)"

definition showTypingIndicator :: "client \<Rightarrow> client" where
  "showTypingIndicator c =
     (case typingArea_hidden c of None \<Rightarrow> c | Some h \<Rightarrow> c\<lparr>typingArea_hidden := Some False\<rparr>)"

definition hideTypingIndicator :: "client \<Rightarrow> client" where
  "hideTypingIndicator c =
     (case typingArea_hidden c of None \<Rightarrow> c | Some h \<Rightarrow> c\<lparr>typingArea_hidden := Some True\<rparr>)"

definition msg_object :: "string \<Rightarrow> json option \<Rightarrow> json" where
  "msg_object role content =
     JObj (obj [(ascii ''role'', Some (JStr (ascii role))), (ascii ''content'', content)])"

definition push :: "json \<Rightarrow> client \<Rightarrow> client" where
  "push m c = c\<lparr>messageHistory := messageHistory c @ [m]\<rparr>"

definition addWelcomeMessage :: "client \<Rightarrow> exn + client" where
  "addWelcomeMessage c =
     (let content = Some (JStr ([0xD83D, 0xDD49, 0xFE0F] @ ascii
        '' Namaste. I am Guruji, a humble channel of DeepSeek wisdom. What question stirs in your heart today?''))
      in case addMessageToChat content False c of
           Inl e \<Rightarrow> Inl e
         | Inr c' \<Rightarrow> Inr (push (msg_object ''assistant'' content) c'))"

subsection \<open>sendToBackend\<close>

text \<open>\<open>xs.slice(start)\<close>.\<close>

definition slice :: "int \<Rightarrow> 'a list \<Rightarrow> 'a list" where
  "slice start xs =
     (let len = int (length xs);
          k = (if start < 0 then max (len + start) 0 else min start len)
      in drop (nat k) xs)"

text \<open>The body of the request, lines 151 to 162.\<close>

definition sendToBackend_request :: "client \<Rightarrow> json" where
  "sendToBackend_request c =
     (let recentMessages = slice (- 10) (messageHistory c)
      in JObj [(ascii ''messages'', JArr recentMessages),
               (ascii ''temperature'', JNum (7 / 10)),
               (ascii ''sessionId'', JStr (sessionId c))])"

text \<open>Lines 165 to 178, for the outcome of the request: what \<open>sendToBackend\<close>
  returns, or its exception.\<close>

definition sendToBackend_result :: "fetch_outcome \<Rightarrow> exn + json" where
  "sendToBackend_result outcome =
     (case outcome of
        Rejected \<Rightarrow> Inl Error
      | Responded ok data \<Rightarrow>
          (if \<not> ok then
             (case js_get data Fallback of
                Inl e \<Rightarrow> Inl e
              | Inr fallback \<Rightarrow>
                  (if js_truthy fallback then
                     Inr (JObj (obj [(ascii ''success'', Some (JBool True)),
                                     (ascii ''content'', fallback)]))
                   else Inl Error))
           else Inr data))"

subsection \<open>handleAPIError and handleNetworkError\<close>

definition errorMessages :: "jstring list" where
  "errorMessages =
     [[0xD83C, 0xDF31] @ ascii
        '' The cosmic winds are turbulent. Guruji will return when the skies clear.'',
      [0xD83D, 0xDCDC] @ ascii
        '' The ancient scrolls are momentarily hidden. Please try again.'',
      [0xD83D, 0xDD49, 0xFE0F] @ ascii
        '' The energy needs to settle. Ask again in a few breaths.'',
      [0x2728] @ ascii
        '' The stars need realignment. Your patience brings wisdom.'']"

definition handleAPIError :: "json \<Rightarrow> rat \<Rightarrow> client \<Rightarrow> exn + client" where
  "handleAPIError error u c =
     (case js_get error Fallback of
        Inl e \<Rightarrow> Inl e
      | Inr fallback \<Rightarrow>
          (let fallbackMessage =
                 (if js_truthy fallback then fallback
                  else map_option JStr (js_index errorMessages (random_index u errorMessages)))
           in case addMessageToChat fallbackMessage False c of
                Inl e \<Rightarrow> Inl e
              | Inr c' \<Rightarrow> Inr (push (msg_object ''assistant'' fallbackMessage) c')))"

definition networkErrorMessage :: jstring where
  "networkErrorMessage =
     [0xD83D, 0xDD2E] @ ascii
       '' The connection to Guruji's realm is unstable. Please check your network.''"

definition handleNetworkError :: "client \<Rightarrow> exn + client" where
  "handleNetworkError c =
     (let message = Some (JStr networkErrorMessage)
      in case addMessageToChat message False c of
           Inl e \<Rightarrow> Inl e
         | Inr c' \<Rightarrow> Inr (push (msg_object ''assistant'' message) c'))"

subsection \<open>handleUserMessage\<close>

text \<open>The code units \<open>trim\<close> removes: white space and line terminators.\<close>

definition is_whitespace :: "jschar \<Rightarrow> bool" where
  "is_whitespace ch \<longleftrightarrow>
     ch \<in> {0x9, 0xA, 0xB, 0xC, 0xD, 0x20, 0xA0, 0x1680, 0x2028, 0x2029, 0x202F, 0x205F,
           0x3000, 0xFEFF} \<or> (0x2000 \<le> ch \<and> ch \<le> 0x200A)"

definition trim :: "jstring \<Rightarrow> jstring" where
  "trim s = rev (dropWhile is_whitespace (rev (dropWhile is_whitespace s)))"

text \<open>
  Lines 101 to 122, up to the \<open>await\<close>: the new state, and the body of the request sent
  to the relay, if one is sent. Between this step and the next the submission is in
  flight.
\<close>

definition handleUserMessage_begin :: "client \<Rightarrow> client \<times> json option" where
  "handleUserMessage_begin c =
     (let message = trim (userInput_value c)
      in if message = [] \<or> isProcessing c then (c, None)
         else
           (let c1 = c\<lparr>isProcessing := True, sendBtn_disabled := True,
                       userInput_disabled := True\<rparr>
            in case addMessageToChat (Some (JStr message)) True c1 of
                 Inl e \<Rightarrow> (c1, None)
               | Inr c2 \<Rightarrow>
                   (let c3 = push (msg_object ''user'' (Some (JStr message))) c2;
                        c4 = c3\<lparr>userInput_value := []\<rparr>;
                        c5 = showTypingIndicator c4
                    in (c5, Some (sendToBackend_request c5)))))"

text \<open>
  Lines 122 to 134, the \<open>try\<close> block after the \<open>await\<close>, for the outcome of the request
  and the value \<open>u\<close> of \<open>Math.random()\<close>: \<open>Inr\<close> the state when the block ends, \<open>Inl\<close> the
  state when it throws.
\<close>

definition handleUserMessage_try :: "fetch_outcome \<Rightarrow> rat \<Rightarrow> client \<Rightarrow> client + client" where
  "handleUserMessage_try outcome u c =
     (case sendToBackend_result outcome of
        Inl e \<Rightarrow> Inl c
      | Inr response \<Rightarrow>
          (let c1 = hideTypingIndicator c
           in case js_get response Success of
                Inl e \<Rightarrow> Inl c1
              | Inr success \<Rightarrow>
                  (if js_truthy success then
                     (case js_get response Content of
                        Inl e \<Rightarrow> Inl c1
                      | Inr content \<Rightarrow>
                          (case addMessageToChat content False c1 of
                             Inl e \<Rightarrow> Inl c1
                           | Inr c2 \<Rightarrow> Inr (push (msg_object ''assistant'' content) c2)))
                   else
                     (case handleAPIError response u c1 of
                        Inl e \<Rightarrow> Inl c1
                      | Inr c2 \<Rightarrow> Inr c2))))"

text \<open>Lines 136 to 146: the \<open>catch\<close> and \<open>finally\<close> blocks around it.\<close>

definition handleUserMessage_end :: "fetch_outcome \<Rightarrow> rat \<Rightarrow> client \<Rightarrow> client" where
  "handleUserMessage_end outcome u c =
     (let c' = (case handleUserMessage_try outcome u c of
                  Inr done \<Rightarrow> done
                | Inl thrown \<Rightarrow>
                    (let c1 = hideTypingIndicator thrown
                     in case handleNetworkError c1 of Inl e \<Rightarrow> c1 | Inr c2 \<Rightarrow> c2))
      in c'\<lparr>isProcessing := False, sendBtn_disabled := False, userInput_disabled := False\<rparr>)"

text \<open>The whole of \<open>handleUserMessage\<close>, with the relay as a function from the
  request body to the outcome.\<close>

definition handleUserMessage ::
  "(json \<Rightarrow> fetch_outcome) \<Rightarrow> rat \<Rightarrow> client \<Rightarrow> client \<times> json option" where
  "handleUserMessage relay u c =
     (case handleUserMessage_begin c of
        (c', None) \<Rightarrow> (c', None)
      | (c', Some request) \<Rightarrow> (handleUserMessage_end (relay request) u c', Some request))"

section \<open>Notions used by the statements\<close>

text \<open>The \<open>messages\<close> of the body posted upstream; \<open>None\<close> when no call was made.\<close>

definition sent_messages :: "http_response \<times> json option \<Rightarrow> json list option" where
  "sent_messages r =
     (case snd r of
        Some (JObj kvs) \<Rightarrow>
          (case map_of kvs (ascii ''messages'') of Some (JArr ms) \<Rightarrow> Some ms | _ \<Rightarrow> None)
      | _ \<Rightarrow> None)"

text \<open>The messages of a list whose role is \<open>system\<close>, in order.\<close>

definition system_messages :: "json list \<Rightarrow> json list" where
  "system_messages msgs = filter (\<lambda>m. is_system m = Inr True) msgs"

text \<open>The elements \<open>some\<close> reads without a hit: those before the first system message,
  all of them when there is none.\<close>

definition scanned :: "json list \<Rightarrow> json list" where
  "scanned msgs = takeWhile (\<lambda>m. is_system m \<noteq> Inr True) msgs"

text \<open>The temperature the handler passes on: the caller's, or 0.7.\<close>

definition temperature_of :: "json \<Rightarrow> json" where
  "temperature_of req_body =
     (case js_get req_body Temperature of Inr (Some v) \<Rightarrow> v | _ \<Rightarrow> JNum (7 / 10))"

text \<open>The \<open>code\<close> of a result of \<open>generateResponse\<close>.\<close>

fun result_code :: "gen_result \<Rightarrow> jstring option" where
  "result_code (GenOk content usage) = None"
| "result_code (GenFail err cd) = Some cd"

text \<open>The \<open>code\<close> of a response body.\<close>

definition response_code :: "http_response \<Rightarrow> json option" where
  "response_code r = (case body r of JObj kvs \<Rightarrow> map_of kvs (ascii ''code'') | _ \<Rightarrow> None)"

text \<open>A text that is empty or holds white space only.\<close>

definition whitespace_only :: "jstring \<Rightarrow> bool" where
  "whitespace_only s = (\<forall>ch \<in> set s. is_whitespace ch)"

text \<open>
  From the state \<open>c\<close> to the state \<open>c'\<close> the text \<open>s\<close> was shown as one new bubble of the
  assistant and appended to the history as one assistant message.
\<close>

definition shows_assistant :: "client \<Rightarrow> jstring \<Rightarrow> client \<Rightarrow> bool" where
  "shows_assistant c s c' \<longleftrightarrow>
     chatWindow c' = chatWindow c @ [(s, False)] \<and>
     messageHistory c' = messageHistory c @ [msg_object ''assistant'' (Some (JStr s))]"

subsection \<open>Concrete inputs\<close>

text \<open>An upstream service that answers, and one that fails with a given error.\<close>

definition upstream_ok :: "json \<Rightarrow> axios_outcome" where
  "upstream_ok req = Completed (Some (JStr (ascii ''Om''))) None"

definition upstream_failing :: "js_error \<Rightarrow> json \<Rightarrow> axios_outcome" where
  "upstream_failing e req = Failed e"

text \<open>Messages and request bodies of a caller.\<close>

definition user_msg :: "string \<Rightarrow> json" where
  "user_msg s =
     JObj [(ascii ''role'', JStr (ascii ''user'')), (ascii ''content'', JStr (ascii s))]"

definition system_msg :: "string \<Rightarrow> json" where
  "system_msg s =
     JObj [(ascii ''role'', JStr (ascii ''system'')), (ascii ''content'', JStr (ascii s))]"

definition chat_body :: "json list \<Rightarrow> json" where
  "chat_body msgs = JObj [(ascii ''messages'', JArr msgs)]"

text \<open>An axios error for a response with a status, and one without a response.\<close>

definition http_error :: "nat \<Rightarrow> js_error" where
  "http_error st = \<lparr>response_status = Some st, code = Some (ascii ''ERR_BAD_RESPONSE'')\<rparr>"

definition transport_error :: "string \<Rightarrow> js_error" where
  "transport_error c = \<lparr>response_status = None, code = Some (ascii c)\<rparr>"

text \<open>The answer of \<open>/api/health\<close>, and a client that has counted \<open>n\<close> failed
  probes.\<close>

definition healthy :: fetch_outcome where
  "healthy = Responded True (JObj [(ascii ''status'', JStr (ascii ''healthy''))])"

definition after_failures :: "nat \<Rightarrow> client" where
  "after_failures n = (GurujiChat (ascii ''guruji_1_abc''))\<lparr>reconnectAttempts := n\<rparr>"

text \<open>A relay that cannot be reached; a client with a text in its input, one with a
  given history, and one whose submission is in flight.\<close>

definition relay_unreachable :: "json \<Rightarrow> fetch_outcome" where
  "relay_unreachable request = Rejected"

definition typing :: "string \<Rightarrow> client" where
  "typing s = (GurujiChat (ascii ''guruji_1_abc''))\<lparr>userInput_value := ascii s\<rparr>"

definition talk :: "nat \<Rightarrow> json" where
  "talk n = msg_object ''user'' (Some (JStr (show_nat n)))"

definition with_history :: "json list \<Rightarrow> client" where
  "with_history h = (GurujiChat (ascii ''guruji_1_abc''))\<lparr>messageHistory := h\<rparr>"

definition in_flight :: client where
  "in_flight = fst (handleUserMessage_begin (typing '' hi ''))"

text \<open>
  Bodies of responses: the relay's answer to an upstream 429; the answer of the rate
  limiter of server.js (lines 40 to 43), which has no fallback; an answer that only says
  \<open>success: false\<close>, with or without a fallback.
\<close>

definition relay_failure_body :: json where
  "relay_failure_body =
     body (chat_respond (generateResponse_catch (http_error 429)) (1 / 2) [])"

definition rate_limited_body :: json where
  "rate_limited_body =
     JObj [(ascii ''error'',
            JStr (ascii ''Too many requests from this IP, please try again later.'')),
           (ascii ''code'', JStr (ascii ''RATE_LIMIT_EXCEEDED''))]"

definition soft_failure :: "json option \<Rightarrow> json" where
  "soft_failure fallback =
     JObj (obj [(ascii ''success'', Some (JBool False)), (ascii ''fallback'', fallback)])"

section \<open>Properties of the relay\<close>

lemma sent_messages_completion_request:
  "sent_messages (r, Some (completion_request ms t)) = Some ms"
  by (simp add: sent_messages_def completion_request_def ascii_def)

lemma is_system_total: "m \<noteq> JNull \<Longrightarrow> \<exists>b. is_system m = Inr b"
  by (cases m) (auto simp: is_system_def)

lemma is_system_persona: "is_system persona = Inr True"
  by (simp add: is_system_def persona_def)

lemma is_system_null: "is_system JNull = Inl TypeError"
  by (simp add: is_system_def)

lemma scanned_no_system: "system_messages msgs = [] \<Longrightarrow> scanned msgs = msgs"
  by (simp add: scanned_def system_messages_def filter_empty_conv)

lemma hasSystemPrompt_scanned:
  "hasSystemPrompt msgs =
     (if JNull \<in> set (scanned msgs) then Inl TypeError
      else Inr (system_messages msgs \<noteq> []))"
proof (induction msgs)
  case Nil
  then show ?case by (simp add: scanned_def system_messages_def)
next
  case (Cons m msgs)
  show ?case
  proof (cases "m = JNull")
    case True
    then show ?thesis by (simp add: scanned_def is_system_null)
  next
    case False
    then obtain b where b: "is_system m = Inr b" using is_system_total by blast
    show ?thesis
    proof (cases b)
      case True
      with b show ?thesis by (simp add: scanned_def system_messages_def)
    next
      case notsys: False
      with b \<open>m \<noteq> JNull\<close> Cons.IH show ?thesis
        by (auto simp: scanned_def system_messages_def)
    qed
  qed
qed

lemma chat_prepare_array:
  assumes "js_get req_body Messages = Inr (Some (JArr msgs))"
  shows "chat_prepare req_body =
     (case hasSystemPrompt msgs of
        Inl e \<Rightarrow> Crash e
      | Inr b \<Rightarrow> Call (if b then msgs else persona # msgs) (temperature_of req_body))"
proof -
  from assms obtain kvs where "req_body = JObj kvs" by (cases req_body) auto
  with assms show ?thesis
    by (auto simp: chat_prepare_def temperature_of_def Let_def
             split: sum.splits option.splits bool.splits)
qed

lemma chat_route_array:
  assumes "js_get req_body Messages = Inr (Some (JArr msgs))"
    and "hasSystemPrompt msgs = Inr b"
  shows "chat_route upstream u now req_body =
     (chat_respond (generateResponse upstream (if b then msgs else persona # msgs)
                      (Some (temperature_of req_body))) u now,
      Some (completion_request (if b then msgs else persona # msgs)
              (Some (temperature_of req_body))))"
  using assms by (simp add: chat_route_def chat_prepare_array)

lemma sent_messages_array:
  assumes "js_get req_body Messages = Inr (Some (JArr msgs))"
    and "hasSystemPrompt msgs = Inr b"
  shows "sent_messages (chat_route upstream u now req_body) =
           Some (if b then msgs else persona # msgs)"
  by (simp only: chat_route_array [OF assms] sent_messages_completion_request)

text \<open>
  C1, as amended. The request body holds a messages array in which no \<open>null\<close> stands
  before the first message of role \<open>system\<close> (nowhere, when there is none). If no element
  has role \<open>system\<close>, the list posted upstream is the persona message followed by the
  caller's list, and the persona is its only system message. If some element has role
  \<open>system\<close>, the list posted upstream is the caller's list itself. When a \<open>null\<close> does
  stand there, the handler answers with the \<open>SERVER_ERROR\<close> response and calls nothing.
\<close>

theorem relay_persona_injection:
  assumes "js_get req_body Messages = Inr (Some (JArr msgs))"
  shows "(JNull \<notin> set (scanned msgs) \<and> system_messages msgs = [] \<longrightarrow>
            sent_messages (chat_route upstream u now req_body) = Some (persona # msgs) \<and>
            system_messages (persona # msgs) = [persona]) \<and>
         (JNull \<notin> set (scanned msgs) \<and> system_messages msgs \<noteq> [] \<longrightarrow>
            sent_messages (chat_route upstream u now req_body) = Some msgs) \<and>
         (JNull \<in> set (scanned msgs) \<longrightarrow>
            chat_route upstream u now req_body = (server_error, None))"
proof (cases "JNull \<in> set (scanned msgs)")
  case True
  then have "hasSystemPrompt msgs = Inl TypeError" by (simp add: hasSystemPrompt_scanned)
  then have "chat_route upstream u now req_body = (server_error, None)"
    by (simp add: chat_route_def chat_prepare_array [OF assms])
  with True show ?thesis by simp
next
  case False
  then have h: "hasSystemPrompt msgs = Inr (system_messages msgs \<noteq> [])"
    by (simp add: hasSystemPrompt_scanned)
  have "sent_messages (chat_route upstream u now req_body) =
          Some (if system_messages msgs \<noteq> [] then msgs else persona # msgs)"
    by (rule sent_messages_array [OF assms h])
  moreover have "system_messages msgs = [] \<Longrightarrow> system_messages (persona # msgs) = [persona]"
    by (simp add: system_messages_def is_system_persona)
  ultimately show ?thesis using False by simp
qed

theorem relay_persona_injection_witness:
  "sent_messages (chat_route upstream_ok 0 [] (chat_body [user_msg ''hi''])) =
     Some [persona, user_msg ''hi''] \<and>
   sent_messages
     (chat_route upstream_ok 0 [] (chat_body [system_msg ''be brief'', user_msg ''hi''])) =
     Some [system_msg ''be brief'', user_msg ''hi''] \<and>
   sent_messages (chat_route upstream_ok 0 [] (chat_body [system_msg ''be brief'', JNull])) =
     Some [system_msg ''be brief'', JNull] \<and>
   chat_route upstream_ok 0 [] (chat_body [user_msg ''hi'', JNull]) = (server_error, None)"
proof -
  have g: "js_get (chat_body msgs) Messages = Inr (Some (JArr msgs))" for msgs
    by (simp add: chat_body_def)
  have s1: "system_messages [user_msg ''hi''] = []"
    by (simp add: system_messages_def is_system_def user_msg_def ascii_def)
  have n1: "JNull \<notin> set (scanned [user_msg ''hi''])"
    by (simp add: scanned_def is_system_def user_msg_def ascii_def)
  have s2: "system_messages [system_msg ''be brief'', user_msg ''hi''] \<noteq> []"
    by (simp add: system_messages_def is_system_def system_msg_def)
  have n2: "JNull \<notin> set (scanned [system_msg ''be brief'', user_msg ''hi''])"
    by (simp add: scanned_def is_system_def system_msg_def)
  have s3: "system_messages [system_msg ''be brief'', JNull] \<noteq> []"
    by (simp add: system_messages_def is_system_def system_msg_def)
  have n3: "JNull \<notin> set (scanned [system_msg ''be brief'', JNull])"
    by (simp add: scanned_def is_system_def system_msg_def)
  have n4: "JNull \<in> set (scanned [user_msg ''hi'', JNull])"
    by (simp add: scanned_def is_system_def user_msg_def ascii_def)
  show ?thesis
    using relay_persona_injection [OF g, of "[user_msg ''hi'']" upstream_ok 0 "[]"] s1 n1
      relay_persona_injection
        [OF g, of "[system_msg ''be brief'', user_msg ''hi'']" upstream_ok 0 "[]"] s2 n2
      relay_persona_injection
        [OF g, of "[system_msg ''be brief'', JNull]" upstream_ok 0 "[]"] s3 n3
      relay_persona_injection [OF g, of "[user_msg ''hi'', JNull]" upstream_ok 0 "[]"] n4
    by simp
qed

text \<open>
  C1 as stated fails: a messages array that holds only \<open>null\<close> has no system message,
  and one that holds \<open>null\<close> and then a system message has one; for both the read of
  \<open>role\<close> throws, the answer is 500 and nothing is posted upstream.
\<close>

theorem relay_null_message_counterexample:
  "map is_system [JNull] = [Inl TypeError] \<and>
   status (fst (chat_route upstream_ok 0 [] (chat_body [JNull]))) = 500 \<and>
   sent_messages (chat_route upstream_ok 0 [] (chat_body [JNull])) = None \<and>
   map is_system [JNull, system_msg ''a''] = [Inl TypeError, Inr True] \<and>
   status (fst (chat_route upstream_ok 0 [] (chat_body [JNull, system_msg ''a'']))) = 500 \<and>
   sent_messages (chat_route upstream_ok 0 [] (chat_body [JNull, system_msg ''a''])) = None"
  by (simp add: chat_route_def chat_prepare_def chat_body_def is_system_def system_msg_def
        server_error_def sent_messages_def)

lemma sent_messages_cases:
  assumes "sent_messages (chat_route upstream u now req_body) = Some sent"
  shows "\<exists>msgs b. js_get req_body Messages = Inr (Some (JArr msgs)) \<and>
           hasSystemPrompt msgs = Inr b \<and> sent = (if b then msgs else persona # msgs)"
proof -
  from assms obtain cm t where call: "chat_prepare req_body = Call cm t"
    by (cases "chat_prepare req_body") (auto simp: chat_route_def sent_messages_def)
  then obtain m where m: "js_get req_body Messages = Inr m"
    by (cases "js_get req_body Messages") (auto simp: chat_prepare_def)
  with call obtain msgs where msgs: "m = Some (JArr msgs)"
    by (cases m rule: isArray.cases)
       (auto simp: chat_prepare_def Let_def split: sum.splits)
  from call m msgs obtain b where b: "hasSystemPrompt msgs = Inr b"
    by (cases "hasSystemPrompt msgs") (auto simp: chat_prepare_array)
  from assms sent_messages_array [OF m [unfolded msgs] b, of upstream u now]
  have "sent = (if b then msgs else persona # msgs)" by simp
  with m msgs b show ?thesis by blast
qed

lemma hasSystemPrompt_True: "hasSystemPrompt msgs = Inr True \<Longrightarrow> system_messages msgs \<noteq> []"
proof (induction msgs)
  case Nil
  then show ?case by simp
next
  case (Cons m msgs)
  then show ?case
    by (cases "is_system m") (auto simp: system_messages_def split: if_splits bool.splits)
qed

lemma hasSystemPrompt_False: "hasSystemPrompt msgs = Inr False \<Longrightarrow> system_messages msgs = []"
proof (induction msgs)
  case Nil
  then show ?case by (simp add: system_messages_def)
next
  case (Cons m msgs)
  then show ?case
    by (cases "is_system m") (auto simp: system_messages_def split: if_splits bool.splits)
qed

text \<open>
  C2, as amended. When the relay calls upstream, the list it posts is the caller's list
  itself if that list holds a system message, and the persona followed by the caller's
  list if it holds none; so the caller's messages keep their order and the list posted
  holds at least one system message. It holds exactly one, as its first element, exactly
  when the caller's list holds none, or holds exactly one as its first element.
\<close>

theorem relay_upstream_messages_shape:
  assumes "sent_messages (chat_route upstream u now req_body) = Some sent"
  shows "\<exists>msgs. js_get req_body Messages = Inr (Some (JArr msgs)) \<and>
           sent = (if system_messages msgs \<noteq> [] then msgs else persona # msgs) \<and>
           system_messages sent \<noteq> [] \<and>
           (system_messages msgs = [] \<longrightarrow> system_messages sent = [persona]) \<and>
           ((length (system_messages sent) = 1 \<and> is_system (hd sent) = Inr True) =
            (system_messages msgs = [] \<or>
             length (system_messages msgs) = 1 \<and> is_system (hd msgs) = Inr True))"
proof -
  from sent_messages_cases [OF assms] obtain msgs b where
    m: "js_get req_body Messages = Inr (Some (JArr msgs))" and
    b: "hasSystemPrompt msgs = Inr b" and
    s: "sent = (if b then msgs else persona # msgs)" by blast
  show ?thesis
  proof (cases b)
    case True
    with b have "system_messages msgs \<noteq> []" by (simp add: hasSystemPrompt_True)
    with True s m show ?thesis by auto
  next
    case False
    with b have e: "system_messages msgs = []" by (simp add: hasSystemPrompt_False)
    then have "system_messages (persona # msgs) = [persona]"
      by (simp add: system_messages_def is_system_persona)
    with False s m e show ?thesis by (auto simp: is_system_persona)
  qed
qed

theorem relay_upstream_messages_shape_witness:
  "sent_messages
     (chat_route upstream_ok 0 []
        (chat_body [user_msg ''hi'', system_msg ''a'', system_msg ''b''])) =
     Some [user_msg ''hi'', system_msg ''a'', system_msg ''b''] \<and>
   system_messages [user_msg ''hi'', system_msg ''a'', system_msg ''b''] \<noteq> [] \<and>
   sent_messages (chat_route upstream_ok 0 [] (chat_body [user_msg ''hi''])) =
     Some [persona, user_msg ''hi''] \<and>
   system_messages [persona, user_msg ''hi''] = [persona] \<and>
   sent_messages (chat_route upstream_ok 0 [] (chat_body [system_msg ''a'', user_msg ''hi''])) =
     Some [system_msg ''a'', user_msg ''hi''] \<and>
   length (system_messages [system_msg ''a'', user_msg ''hi'']) = 1"
proof -
  have h1: "sent_messages
          (chat_route upstream_ok 0 []
             (chat_body [user_msg ''hi'', system_msg ''a'', system_msg ''b''])) =
        Some [user_msg ''hi'', system_msg ''a'', system_msg ''b'']"
    by (simp add: chat_route_def chat_prepare_def chat_body_def user_msg_def system_msg_def
          is_system_def sent_messages_def completion_request_def ascii_def)
  have h2: "sent_messages (chat_route upstream_ok 0 [] (chat_body [user_msg ''hi''])) =
        Some [persona, user_msg ''hi'']"
    by (simp add: chat_route_def chat_prepare_def chat_body_def user_msg_def
          is_system_def sent_messages_def completion_request_def ascii_def)
  have h3: "sent_messages
          (chat_route upstream_ok 0 [] (chat_body [system_msg ''a'', user_msg ''hi''])) =
        Some [system_msg ''a'', user_msg ''hi'']"
    by (simp add: chat_route_def chat_prepare_def chat_body_def user_msg_def system_msg_def
          is_system_def sent_messages_def completion_request_def ascii_def)
  have s1: "is_system (user_msg ''hi'') = Inr False"
    by (simp add: is_system_def user_msg_def ascii_def)
  have s2: "system_messages [user_msg ''hi''] = []"
    by (simp add: system_messages_def s1)
  have s3: "is_system (system_msg ''a'') = Inr True"
    by (simp add: is_system_def system_msg_def)
  have g: "js_get (chat_body msgs) Messages = Inr (Some (JArr msgs))" for msgs
    by (simp add: chat_body_def)
  from relay_upstream_messages_shape [OF h1] g
  have "system_messages [user_msg ''hi'', system_msg ''a'', system_msg ''b''] \<noteq> []"
    by simp
  moreover from relay_upstream_messages_shape [OF h2] g s2
  have "system_messages [persona, user_msg ''hi''] = [persona]"
    by simp
  moreover from relay_upstream_messages_shape [OF h3] g
  have "system_messages [system_msg ''a'', user_msg ''hi''] \<noteq> []"
    by simp
  moreover have "length (system_messages [system_msg ''a'', user_msg ''hi'']) = 1"
    by (simp add: system_messages_def s1 s3)
  ultimately show ?thesis using h1 h2 h3 by simp
qed

text \<open>
  C2 as stated fails: a caller's list with a user message followed by two system messages
  is accepted and posted as it is, so the list posted upstream starts with a user message
  and holds two system messages.
\<close>

theorem relay_system_message_counterexample:
  "status (fst (chat_route upstream_ok 0 []
      (chat_body [user_msg ''hi'', system_msg ''a'', system_msg ''b'']))) = 200 \<and>
   sent_messages (chat_route upstream_ok 0 []
      (chat_body [user_msg ''hi'', system_msg ''a'', system_msg ''b''])) =
     Some [user_msg ''hi'', system_msg ''a'', system_msg ''b''] \<and>
   map is_system [user_msg ''hi'', system_msg ''a'', system_msg ''b''] =
     [Inr False, Inr True, Inr True]"
  by (simp add: chat_route_def chat_prepare_def chat_body_def user_msg_def system_msg_def
        is_system_def sent_messages_def completion_request_def ascii_def
        generateResponse_def upstream_ok_def chat_respond_def)

text \<open>
  C3. When the upstream call fails, the \<open>code\<close> that \<open>generateResponse\<close> returns is fixed
  by the failure: status 401 gives \<open>INVALID_API_KEY\<close>, 429 gives \<open>RATE_LIMITED\<close>, 503 and
  504 give \<open>SERVICE_UNAVAILABLE\<close>, every other status gives \<open>API_ERROR\<close>; a failure
  without a response gives \<open>TIMEOUT\<close> when its code is \<open>ECONNABORTED\<close> (the timeout) and
  \<open>NETWORK_ERROR\<close> otherwise, and the two kinds differ.
\<close>

theorem generateResponse_error_kind:
  assumes "upstream (completion_request messages temperature) = Failed e"
  shows "(response_status e = Some 401 \<longrightarrow>
            result_code (generateResponse upstream messages temperature) =
              Some (ascii ''INVALID_API_KEY'')) \<and>
         (response_status e = Some 429 \<longrightarrow>
            result_code (generateResponse upstream messages temperature) =
              Some (ascii ''RATE_LIMITED'')) \<and>
         (response_status e = Some 503 \<or> response_status e = Some 504 \<longrightarrow>
            result_code (generateResponse upstream messages temperature) =
              Some (ascii ''SERVICE_UNAVAILABLE'')) \<and>
         (\<forall>st. response_status e = Some st \<and> st \<notin> {401, 429, 503, 504} \<longrightarrow>
            result_code (generateResponse upstream messages temperature) =
              Some (ascii ''API_ERROR'')) \<and>
         (response_status e = None \<and> code e = Some (ascii ''ECONNABORTED'') \<longrightarrow>
            result_code (generateResponse upstream messages temperature) =
              Some (ascii ''TIMEOUT'')) \<and>
         (response_status e = None \<and> code e \<noteq> Some (ascii ''ECONNABORTED'') \<longrightarrow>
            result_code (generateResponse upstream messages temperature) =
              Some (ascii ''NETWORK_ERROR'')) \<and>
         ascii ''TIMEOUT'' \<noteq> ascii ''NETWORK_ERROR''"
proof -
  have g: "generateResponse upstream messages temperature = generateResponse_catch e"
    using assms by (simp add: generateResponse_def)
  have "ascii ''TIMEOUT'' \<noteq> ascii ''NETWORK_ERROR''"
    by (simp add: ascii_def)
  then show ?thesis
    unfolding g by (simp add: generateResponse_catch_def)
qed

theorem generateResponse_error_kind_witness:
  "result_code (generateResponse (upstream_failing (http_error 401)) [] None) =
     Some (ascii ''INVALID_API_KEY'') \<and>
   result_code (generateResponse (upstream_failing (http_error 429)) [] None) =
     Some (ascii ''RATE_LIMITED'') \<and>
   result_code (generateResponse (upstream_failing (http_error 503)) [] None) =
     Some (ascii ''SERVICE_UNAVAILABLE'') \<and>
   result_code (generateResponse (upstream_failing (http_error 504)) [] None) =
     Some (ascii ''SERVICE_UNAVAILABLE'') \<and>
   result_code (generateResponse (upstream_failing (http_error 500)) [] None) =
     Some (ascii ''API_ERROR'') \<and>
   result_code (generateResponse (upstream_failing (transport_error ''ECONNABORTED'')) [] None) =
     Some (ascii ''TIMEOUT'') \<and>
   result_code (generateResponse (upstream_failing (transport_error ''ECONNREFUSED'')) [] None) =
     Some (ascii ''NETWORK_ERROR'')"
proof -
  have ne: "ascii ''ECONNREFUSED'' \<noteq> ascii ''ECONNABORTED''"
    by (simp add: ascii_def)
  show ?thesis
    using
      generateResponse_error_kind
        [of "upstream_failing (http_error 401)" "[]" None "http_error 401"]
      generateResponse_error_kind
        [of "upstream_failing (http_error 429)" "[]" None "http_error 429"]
      generateResponse_error_kind
        [of "upstream_failing (http_error 503)" "[]" None "http_error 503"]
      generateResponse_error_kind
        [of "upstream_failing (http_error 504)" "[]" None "http_error 504"]
      generateResponse_error_kind
        [of "upstream_failing (http_error 500)" "[]" None "http_error 500"]
      generateResponse_error_kind
        [of "upstream_failing (transport_error ''ECONNABORTED'')" "[]" None
            "transport_error ''ECONNABORTED''"]
      generateResponse_error_kind
        [of "upstream_failing (transport_error ''ECONNREFUSED'')" "[]" None
            "transport_error ''ECONNREFUSED''"]
      ne
    by (simp add: upstream_failing_def http_error_def transport_error_def)
qed

lemma random_index_in_range:
  assumes "0 \<le> u" "u < 1" "xs \<noteq> []"
  shows "0 \<le> random_index u xs \<and> random_index u xs < int (length xs)"
proof -
  have pos: "(0::rat) < of_nat (length xs)" using assms(3) by simp
  have "0 \<le> u * of_nat (length xs)" using assms(1) by simp
  then have lo: "0 \<le> random_index u xs" by (simp add: random_index_def)
  have "u * of_nat (length xs) < 1 * of_nat (length xs)"
    using assms(2) pos by (rule mult_strict_right_mono)
  then have "u * of_nat (length xs) < of_int (int (length xs))" by simp
  then have "random_index u xs < int (length xs)"
    unfolding random_index_def by (simp only: floor_less_iff)
  with lo show ?thesis by simp
qed

lemma js_index_random:
  assumes "0 \<le> u" "u < 1" "xs \<noteq> []"
  shows "\<exists>x \<in> set xs. js_index xs (random_index u xs) = Some x"
proof -
  from random_index_in_range [OF assms]
  have r: "0 \<le> random_index u xs" "random_index u xs < int (length xs)" by simp_all
  then have "nat (random_index u xs) < length xs" by simp
  then have "xs ! nat (random_index u xs) \<in> set xs" by (rule nth_mem)
  with r show ?thesis by (simp add: js_index_def)
qed

lemma fallbackResponses_nonempty: "s \<in> set fallbackResponses \<Longrightarrow> s \<noteq> []"
  by (auto simp: fallbackResponses_def)

lemma chat_respond_fail_fallback:
  assumes "0 \<le> u" "u < 1"
  shows "\<exists>s \<in> set fallbackResponses.
           js_get (body (chat_respond (GenFail err cd) u now)) Fallback = Inr (Some (JStr s))"
proof -
  have "fallbackResponses \<noteq> []" by (simp add: fallbackResponses_def)
  from js_index_random [OF assms this] obtain s where
    s: "s \<in> set fallbackResponses"
       "js_index fallbackResponses (random_index u fallbackResponses) = Some s" by blast
  have "js_get (body (chat_respond (GenFail err cd) u now)) Fallback = Inr (Some (JStr s))"
    by (simp add: chat_respond_def s(2) ascii_def)
  with s(1) show ?thesis by blast
qed

lemma chat_route_status_503:
  assumes "status (fst (chat_route upstream u now req_body)) = 503"
  shows "\<exists>err cd. fst (chat_route upstream u now req_body) = chat_respond (GenFail err cd) u now"
proof (cases "chat_prepare req_body")
  case (Reject r)
  then have "r = invalid_request"
    by (auto simp: chat_prepare_def Let_def split: sum.splits option.splits json.splits bool.splits if_splits)
  with Reject assms show ?thesis by (simp add: chat_route_def invalid_request_def)
next
  case (Crash e)
  with assms show ?thesis by (simp add: chat_route_def server_error_def)
next
  case (Call cm t)
  show ?thesis
  proof (cases "generateResponse upstream cm (Some t)")
    case (GenOk c us)
    with Call assms show ?thesis by (simp add: chat_route_def chat_respond_def)
  next
    case (GenFail err cd)
    with Call show ?thesis by (auto simp: chat_route_def)
  qed
qed

text \<open>
  C4, as amended. Every response the relay gives for an upstream failure (status 503)
  carries a non-empty \<open>fallback\<close> string, one of the four fixed phrases; \<open>u\<close> is the value
  of \<open>Math.random()\<close>.
\<close>

theorem relay_upstream_failure_fallback:
  assumes "0 \<le> u" and "u < 1"
    and "status (fst (chat_route upstream u now req_body)) = 503"
  shows "\<exists>s. js_get (body (fst (chat_route upstream u now req_body))) Fallback =
               Inr (Some (JStr s)) \<and> s \<noteq> [] \<and> s \<in> set fallbackResponses"
proof -
  from chat_route_status_503 [OF assms(3)] obtain err cd where
    "fst (chat_route upstream u now req_body) = chat_respond (GenFail err cd) u now" by blast
  with chat_respond_fail_fallback [OF assms(1,2), of err cd now]
  show ?thesis by (auto dest: fallbackResponses_nonempty)
qed

theorem relay_upstream_failure_fallback_witness:
  "js_get (body (fst (chat_route (upstream_failing (http_error 429)) (1 / 2) []
      (chat_body [user_msg ''hi''])))) Fallback =
   Inr (Some (JStr (fallbackResponses ! 2))) \<and> fallbackResponses ! 2 \<noteq> []"
proof -
  have st: "status (fst (chat_route (upstream_failing (http_error 429)) (1 / 2) []
      (chat_body [user_msg ''hi'']))) = 503"
    by (simp add: chat_route_def chat_prepare_def chat_body_def user_msg_def is_system_def
          generateResponse_def upstream_failing_def generateResponse_catch_def http_error_def
          chat_respond_def ascii_def)
  have fb: "js_get (body (fst (chat_route (upstream_failing (http_error 429)) (1 / 2) []
      (chat_body [user_msg ''hi''])))) Fallback =
   Inr (Some (JStr (fallbackResponses ! 2)))"
    by (simp add: chat_route_def chat_prepare_def chat_body_def user_msg_def is_system_def
          generateResponse_def upstream_failing_def generateResponse_catch_def http_error_def
          chat_respond_def ascii_def js_index_def random_index_def fallbackResponses_def)
  have u: "(0::rat) \<le> 1 / 2" "(1 / 2 :: rat) < 1" by simp_all
  from relay_upstream_failure_fallback [OF u st] fb show ?thesis by simp
qed

text \<open>
  C4 as stated fails: the \<open>INVALID_REQUEST\<close> answer to a body without \<open>messages\<close> and
  the \<open>SERVER_ERROR\<close> answer to a messages array holding \<open>null\<close> have \<open>success: false\<close>
  and no \<open>fallback\<close>.
\<close>

theorem relay_failure_without_fallback_counterexample:
  "status (fst (chat_route upstream_ok 0 [] (JObj []))) = 400 \<and>
   js_get (body (fst (chat_route upstream_ok 0 [] (JObj [])))) Success = Inr (Some (JBool False)) \<and>
   response_code (fst (chat_route upstream_ok 0 [] (JObj []))) =
     Some (JStr (ascii ''INVALID_REQUEST'')) \<and>
   js_get (body (fst (chat_route upstream_ok 0 [] (JObj [])))) Fallback = Inr None \<and>
   status (fst (chat_route upstream_ok 0 [] (chat_body [JNull]))) = 500 \<and>
   js_get (body (fst (chat_route upstream_ok 0 [] (chat_body [JNull])))) Success =
     Inr (Some (JBool False)) \<and>
   response_code (fst (chat_route upstream_ok 0 [] (chat_body [JNull]))) =
     Some (JStr (ascii ''SERVER_ERROR'')) \<and>
   js_get (body (fst (chat_route upstream_ok 0 [] (chat_body [JNull])))) Fallback = Inr None"
  by (simp add: chat_route_def chat_prepare_def chat_body_def is_system_def
        invalid_request_def server_error_def response_code_def ascii_def)

text \<open>
  C9. When the handler reaches the upstream call and the call fails, whatever the failure
  is, the response has status 503, and its \<open>code\<close> is the one \<open>generateResponse\<close> gave.
\<close>

theorem relay_upstream_failure_status:
  assumes "chat_prepare req_body = Call chatMessages temperature"
    and "upstream (completion_request chatMessages (Some temperature)) = Failed e"
  shows "status (fst (chat_route upstream u now req_body)) = 503 \<and>
         response_code (fst (chat_route upstream u now req_body)) =
           map_option JStr (result_code (generateResponse_catch e))"
proof -
  obtain err cd where g: "generateResponse_catch e = GenFail err cd"
    by (cases "generateResponse_catch e")
       (auto simp: generateResponse_catch_def split: option.splits if_splits)
  have "generateResponse upstream chatMessages (Some temperature) = GenFail err cd"
    using assms(2) g by (simp add: generateResponse_def)
  with assms(1) g show ?thesis
    by (simp add: chat_route_def chat_respond_def response_code_def ascii_def)
qed

theorem relay_upstream_failure_status_witness:
  "status (fst (chat_route (upstream_failing (http_error 401)) 0 [] (chat_body []))) = 503 \<and>
   status (fst (chat_route (upstream_failing (transport_error ''ECONNABORTED'')) 0 []
     (chat_body []))) = 503"
proof -
  have p: "chat_prepare (chat_body []) = Call [persona] (JNum (7 / 10))"
    by (simp add: chat_prepare_def chat_body_def ascii_def)
  have f1: "upstream_failing (http_error 401)
              (completion_request [persona] (Some (JNum (7 / 10)))) = Failed (http_error 401)"
    by (simp add: upstream_failing_def)
  have f2: "upstream_failing (transport_error ''ECONNABORTED'')
              (completion_request [persona] (Some (JNum (7 / 10)))) =
            Failed (transport_error ''ECONNABORTED'')"
    by (simp add: upstream_failing_def)
  from relay_upstream_failure_status
         [of "chat_body []" "[persona]" "JNum (7 / 10)" "upstream_failing (http_error 401)"
             "http_error 401" 0 "[]", OF p f1]
    relay_upstream_failure_status
         [of "chat_body []" "[persona]" "JNum (7 / 10)"
             "upstream_failing (transport_error ''ECONNABORTED'')"
             "transport_error ''ECONNABORTED''" 0 "[]", OF p f2]
  show ?thesis by simp
qed






section \<open>Properties of the client\<close>

text \<open>
  C8. On a page that has the status elements, one run of \<open>checkConnection\<close> ends as
  follows. If the probe succeeds the status is \<open>connected\<close> and no timer is set. If it
  fails and fewer than \<open>maxReconnectAttempts\<close> failures were counted before, the status
  stays \<open>connecting\<close>, the count grows by one and the next run is set after 2000 ms. If
  it fails and the count had reached \<open>maxReconnectAttempts\<close>, the status is \<open>error\<close> and
  no timer is set, so no run follows.
\<close>

theorem connectivity_state_machine:
  assumes "statusIndicator_className c \<noteq> None" and "statusText_textContent c \<noteq> None"
  shows "(probe_ok outcome \<longrightarrow>
            statusIndicator_className (fst (checkConnection outcome c)) =
              Some (ascii ''status-indicator connected'') \<and>
            snd (checkConnection outcome c) = None) \<and>
         (\<not> probe_ok outcome \<and> reconnectAttempts c < maxReconnectAttempts c \<longrightarrow>
            statusIndicator_className (fst (checkConnection outcome c)) =
              Some (ascii ''status-indicator connecting'') \<and>
            reconnectAttempts (fst (checkConnection outcome c)) = reconnectAttempts c + 1 \<and>
            snd (checkConnection outcome c) = Some 2000) \<and>
         (\<not> probe_ok outcome \<and> maxReconnectAttempts c \<le> reconnectAttempts c \<longrightarrow>
            statusIndicator_className (fst (checkConnection outcome c)) =
              Some (ascii ''status-indicator error'') \<and>
            snd (checkConnection outcome c) = None)"
  using assms
  by (simp add: checkConnection_def Let_def updateConnectionStatus_def ascii_def)

theorem connectivity_state_machine_witness:
  "statusIndicator_className (fst (checkConnection healthy (after_failures 2))) =
     Some (ascii ''status-indicator connected'') \<and>
   snd (checkConnection healthy (after_failures 2)) = None \<and>
   statusIndicator_className (fst (checkConnection Rejected (after_failures 2))) =
     Some (ascii ''status-indicator connecting'') \<and>
   snd (checkConnection Rejected (after_failures 2)) = Some 2000 \<and>
   statusIndicator_className (fst (checkConnection Rejected (after_failures 3))) =
     Some (ascii ''status-indicator error'') \<and>
   snd (checkConnection Rejected (after_failures 3)) = None"
proof -
  have e: "statusIndicator_className (after_failures n) \<noteq> None"
          "statusText_textContent (after_failures n) \<noteq> None" for n
    by (simp_all add: after_failures_def GurujiChat_def)
  have p: "probe_ok healthy" "\<not> probe_ok Rejected"
    by (simp_all add: probe_ok_def healthy_def)
  have a: "reconnectAttempts (after_failures n) = n"
          "maxReconnectAttempts (after_failures n) = 3" for n
    by (simp_all add: after_failures_def GurujiChat_def)
  from connectivity_state_machine [OF e, of healthy 2]
    connectivity_state_machine [OF e, of Rejected 2]
    connectivity_state_machine [OF e, of Rejected 3] p a
  show ?thesis by simp
qed

lemma checkConnection_keeps:
  "maxReconnectAttempts (fst (checkConnection outcome c)) = maxReconnectAttempts c"
  "(statusIndicator_className (fst (checkConnection outcome c)) \<noteq> None) =
     (statusIndicator_className c \<noteq> None)"
  "(statusText_textContent (fst (checkConnection outcome c)) \<noteq> None) =
     (statusText_textContent c \<noteq> None)"
  by (simp_all add: checkConnection_def Let_def updateConnectionStatus_def)

lemma checkConnection_failed:
  assumes "statusIndicator_className c \<noteq> None" and "statusText_textContent c \<noteq> None"
    and "\<not> probe_ok outcome"
  shows "reconnectAttempts c < maxReconnectAttempts c \<Longrightarrow>
           reconnectAttempts (fst (checkConnection outcome c)) = reconnectAttempts c + 1 \<and>
           snd (checkConnection outcome c) = Some 2000"
    and "maxReconnectAttempts c \<le> reconnectAttempts c \<Longrightarrow>
           statusIndicator_className (fst (checkConnection outcome c)) =
             Some (ascii ''status-indicator error'') \<and>
           snd (checkConnection outcome c) = None"
  using assms
  by (simp_all add: checkConnection_def Let_def updateConnectionStatus_def ascii_def)

lemma checkConnection_runs_failing:
  assumes "statusIndicator_className c \<noteq> None" and "statusText_textContent c \<noteq> None"
    and "\<forall>outcome \<in> set failures. \<not> probe_ok outcome"
    and "reconnectAttempts c + length failures = maxReconnectAttempts c + 1"
    and "failures \<noteq> []"
  shows "snd (checkConnection_runs (failures @ later) c) = later \<and>
         statusIndicator_className (fst (checkConnection_runs (failures @ later) c)) =
           Some (ascii ''status-indicator error'')"
  using assms
proof (induction failures arbitrary: c)
  case Nil
  then show ?case by simp
next
  case (Cons outcome failures)
  from Cons.prems(3) have bad: "\<not> probe_ok outcome" by simp
  obtain c' t where step: "checkConnection outcome c = (c', t)"
    by (cases "checkConnection outcome c")
  have keep: "maxReconnectAttempts c' = maxReconnectAttempts c"
    "statusIndicator_className c' \<noteq> None" "statusText_textContent c' \<noteq> None"
    using checkConnection_keeps [of outcome c] step Cons.prems(1,2) by simp_all
  show ?case
  proof (cases "failures = []")
    case True
    with Cons.prems(4) have "maxReconnectAttempts c \<le> reconnectAttempts c" by simp
    from checkConnection_failed(2) [OF Cons.prems(1,2) bad this] step True
    show ?thesis by simp
  next
    case False
    with Cons.prems(4) have lt: "reconnectAttempts c < maxReconnectAttempts c"
      by (cases failures) simp_all
    from checkConnection_failed(1) [OF Cons.prems(1,2) bad lt] step
    have t: "t = Some 2000" and n: "reconnectAttempts c' = reconnectAttempts c + 1"
      by simp_all
    from Cons.prems(3) have all: "\<forall>outcome \<in> set failures. \<not> probe_ok outcome" by simp
    from Cons.prems(4) n keep(1)
    have len: "reconnectAttempts c' + length failures = maxReconnectAttempts c' + 1" by simp
    from Cons.IH [OF keep(2,3) all len False] step t
    show ?thesis by simp
  qed
qed

lemma checkConnection_gives_up:
  "snd (checkConnection_runs ([Rejected, Rejected, Rejected, Rejected] @ later)
          (GurujiChat sid)) = later \<and>
   statusIndicator_className
     (fst (checkConnection_runs ([Rejected, Rejected, Rejected, Rejected] @ later)
             (GurujiChat sid))) = Some (ascii ''status-indicator error'')"
  by (rule checkConnection_runs_failing) (simp_all add: GurujiChat_def probe_ok_def)

lemma trim_empty_iff: "trim s = [] \<longleftrightarrow> whitespace_only s"
proof
  assume "trim s = []"
  then have d: "\<forall>x \<in> set (dropWhile is_whitespace s). is_whitespace x"
    by (simp add: trim_def dropWhile_eq_Nil_conv)
  have "dropWhile is_whitespace s = []"
  proof (rule ccontr)
    assume ne: "dropWhile is_whitespace s \<noteq> []"
    then have "\<not> is_whitespace (hd (dropWhile is_whitespace s))" by (rule hd_dropWhile)
    moreover from ne have "hd (dropWhile is_whitespace s) \<in> set (dropWhile is_whitespace s)"
      by simp
    ultimately show False using d by blast
  qed
  then show "whitespace_only s" by (simp add: whitespace_only_def dropWhile_eq_Nil_conv)
next
  assume "whitespace_only s"
  then have "dropWhile is_whitespace s = []"
    by (simp add: whitespace_only_def dropWhile_eq_Nil_conv)
  then show "trim s = []" by (simp only: trim_def rev.simps dropWhile.simps)
qed

lemma handleUserMessage_begin_noop:
  "whitespace_only (userInput_value c) \<or> isProcessing c \<Longrightarrow> handleUserMessage_begin c = (c, None)"
  by (auto simp: handleUserMessage_begin_def trim_empty_iff)

lemma handleUserMessage_begin_proceeds:
  assumes "\<not> whitespace_only (userInput_value c)" and "\<not> isProcessing c"
  shows "handleUserMessage_begin c =
     (let c5 = showTypingIndicator
                 (c\<lparr>isProcessing := True, sendBtn_disabled := True, userInput_disabled := True,
                    chatWindow := chatWindow c @ [(trim (userInput_value c), True)],
                    messageHistory := messageHistory c @
                      [msg_object ''user'' (Some (JStr (trim (userInput_value c))))],
                    userInput_value := []\<rparr>)
      in (c5, Some (sendToBackend_request c5)))"
  using assms
  by (simp add: handleUserMessage_begin_def trim_empty_iff addMessageToChat_def push_def Let_def)

lemma showTypingIndicator_fields:
  "isProcessing (showTypingIndicator c) = isProcessing c"
  "messageHistory (showTypingIndicator c) = messageHistory c"
  "chatWindow (showTypingIndicator c) = chatWindow c"
  "sessionId (showTypingIndicator c) = sessionId c"
  by (simp_all add: showTypingIndicator_def split: option.splits)

lemma hideTypingIndicator_fields:
  "isProcessing (hideTypingIndicator c) = isProcessing c"
  "messageHistory (hideTypingIndicator c) = messageHistory c"
  "chatWindow (hideTypingIndicator c) = chatWindow c"
  "sessionId (hideTypingIndicator c) = sessionId c"
  by (simp_all add: hideTypingIndicator_def split: option.splits)

lemma handleUserMessage_end_idle: "isProcessing (handleUserMessage_end outcome u c) = False"
  by (simp add: handleUserMessage_end_def Let_def)

text \<open>
  C7. When the input is empty or holds only white space, or a submission is in flight
  (\<open>isProcessing\<close>), \<open>handleUserMessage\<close> changes nothing and sends nothing. Otherwise
  it sends a request, appends the trimmed text as a user message and sets
  \<open>isProcessing\<close>; from then on a second call is again without effect, whatever the
  input holds, until the first call ends, which clears \<open>isProcessing\<close>.
\<close>

theorem submit_noop:
  "(whitespace_only (userInput_value c) \<or> isProcessing c \<longrightarrow>
      handleUserMessage relay u c = (c, None)) \<and>
   (\<not> whitespace_only (userInput_value c) \<and> \<not> isProcessing c \<longrightarrow>
      snd (handleUserMessage_begin c) =
        Some (sendToBackend_request (fst (handleUserMessage_begin c))) \<and>
      messageHistory (fst (handleUserMessage_begin c)) =
        messageHistory c @ [msg_object ''user'' (Some (JStr (trim (userInput_value c))))] \<and>
      isProcessing (fst (handleUserMessage_begin c)) \<and>
      handleUserMessage relay u ((fst (handleUserMessage_begin c))\<lparr>userInput_value := v\<rparr>) =
        ((fst (handleUserMessage_begin c))\<lparr>userInput_value := v\<rparr>, None) \<and>
      \<not> isProcessing (handleUserMessage_end outcome u (fst (handleUserMessage_begin c))))"
proof -
  have noop: "handleUserMessage relay u c' = (c', None)"
    if "whitespace_only (userInput_value c') \<or> isProcessing c'" for c'
    using handleUserMessage_begin_noop [OF that] by (simp add: handleUserMessage_def)
  have "isProcessing (fst (handleUserMessage_begin c))"
    if "\<not> whitespace_only (userInput_value c)" "\<not> isProcessing c"
    using handleUserMessage_begin_proceeds [OF that]
    by (simp add: Let_def showTypingIndicator_fields)
  moreover have "messageHistory (fst (handleUserMessage_begin c)) =
        messageHistory c @ [msg_object ''user'' (Some (JStr (trim (userInput_value c))))]"
    if "\<not> whitespace_only (userInput_value c)" "\<not> isProcessing c"
    using handleUserMessage_begin_proceeds [OF that]
    by (simp add: Let_def showTypingIndicator_fields)
  moreover have "snd (handleUserMessage_begin c) =
        Some (sendToBackend_request (fst (handleUserMessage_begin c)))"
    if "\<not> whitespace_only (userInput_value c)" "\<not> isProcessing c"
    using handleUserMessage_begin_proceeds [OF that]
    by (simp add: Let_def)
  ultimately show ?thesis
    using noop [of c] noop [of "(fst (handleUserMessage_begin c))\<lparr>userInput_value := v\<rparr>"]
    by (simp add: handleUserMessage_end_idle)
qed

theorem submit_noop_witness:
  "handleUserMessage relay_unreachable 0 (typing ''  '') = (typing ''  '', None) \<and>
   messageHistory (fst (handleUserMessage_begin (typing '' hi ''))) =
     [msg_object ''user'' (Some (JStr (ascii ''hi'')))] \<and>
   isProcessing (fst (handleUserMessage_begin (typing '' hi ''))) \<and>
   handleUserMessage relay_unreachable 0
     ((fst (handleUserMessage_begin (typing '' hi '')))\<lparr>userInput_value := ascii ''again''\<rparr>) =
     ((fst (handleUserMessage_begin (typing '' hi '')))\<lparr>userInput_value := ascii ''again''\<rparr>,
      None)"
proof -
  have w: "whitespace_only (userInput_value (typing ''  ''))"
    by (simp add: whitespace_only_def typing_def ascii_def is_whitespace_def)
  have n: "\<not> whitespace_only (userInput_value (typing '' hi ''))"
    by (simp add: whitespace_only_def typing_def ascii_def is_whitespace_def)
  have i: "\<not> isProcessing (typing '' hi '')"
    by (simp add: typing_def GurujiChat_def)
  have h: "messageHistory (typing '' hi '') = []"
    by (simp add: typing_def GurujiChat_def)
  have t: "trim (userInput_value (typing '' hi '')) = ascii ''hi''"
    by (simp add: typing_def trim_def ascii_def is_whitespace_def)
  from submit_noop [of "typing ''  ''" relay_unreachable 0] w
    submit_noop [of "typing '' hi ''" relay_unreachable 0 "ascii ''again''"] n i h t
  show ?thesis by simp
qed

lemma slice_last: "0 < n \<Longrightarrow> slice (- int n) xs = drop (length xs - n) xs"
  by (auto simp: slice_def Let_def max_def nat_diff_distrib')

lemma sendToBackend_request_messages:
  "js_get (sendToBackend_request c) Messages =
     Inr (Some (JArr (drop (length (messageHistory c) - 10) (messageHistory c))))"
proof -
  have "slice (- 10) (messageHistory c) = drop (length (messageHistory c) - 10) (messageHistory c)"
    using slice_last [of 10 "messageHistory c"] by simp
  then show ?thesis by (simp add: sendToBackend_request_def)
qed

text \<open>
  C6. The \<open>messages\<close> of the request body are the last 10 entries of the message history
  as it stands when the request is built, in order, or the whole history when it has
  fewer; with 12 entries they are the 10 entries after the first two. The request of a
  submission is built from the history that already holds the new user message.
\<close>

theorem client_sends_last_ten:
  "js_get (sendToBackend_request c) Messages =
     Inr (Some (JArr (drop (length (messageHistory c) - 10) (messageHistory c)))) \<and>
   length (drop (length (messageHistory c) - 10) (messageHistory c)) =
     min 10 (length (messageHistory c)) \<and>
   (length (messageHistory c) = 12 \<longrightarrow>
      js_get (sendToBackend_request c) Messages = Inr (Some (JArr (drop 2 (messageHistory c)))) \<and>
      length (drop 2 (messageHistory c)) = 10) \<and>
   (snd (handleUserMessage_begin c) = Some request \<longrightarrow>
      request = sendToBackend_request (fst (handleUserMessage_begin c)) \<and>
      messageHistory (fst (handleUserMessage_begin c)) =
        messageHistory c @ [msg_object ''user'' (Some (JStr (trim (userInput_value c))))])"
proof -
  have "request = sendToBackend_request (fst (handleUserMessage_begin c)) \<and>
      messageHistory (fst (handleUserMessage_begin c)) =
        messageHistory c @ [msg_object ''user'' (Some (JStr (trim (userInput_value c))))]"
    if "snd (handleUserMessage_begin c) = Some request"
  proof (cases "whitespace_only (userInput_value c) \<or> isProcessing c")
    case True
    from handleUserMessage_begin_noop [OF True] that show ?thesis by simp
  next
    case False
    then have "\<not> whitespace_only (userInput_value c)" "\<not> isProcessing c" by simp_all
    from handleUserMessage_begin_proceeds [OF this] that show ?thesis
      by (auto simp: Let_def showTypingIndicator_fields)
  qed
  then show ?thesis
    by (auto simp: sendToBackend_request_messages)
qed

theorem client_sends_last_ten_witness:
  "js_get (sendToBackend_request
      (with_history [talk 1, talk 2, talk 3, talk 4, talk 5, talk 6, talk 7, talk 8, talk 9,
                     talk 10, talk 11, talk 12])) Messages =
     Inr (Some (JArr [talk 3, talk 4, talk 5, talk 6, talk 7, talk 8, talk 9, talk 10,
                      talk 11, talk 12])) \<and>
   snd (handleUserMessage_begin (typing '' hi '')) =
     Some (sendToBackend_request (fst (handleUserMessage_begin (typing '' hi ''))))"
proof -
  have l: "length (messageHistory
      (with_history [talk 1, talk 2, talk 3, talk 4, talk 5, talk 6, talk 7, talk 8, talk 9,
                     talk 10, talk 11, talk 12])) = 12"
    by (simp add: with_history_def)
  have d: "drop 2 (messageHistory
      (with_history [talk 1, talk 2, talk 3, talk 4, talk 5, talk 6, talk 7, talk 8, talk 9,
                     talk 10, talk 11, talk 12])) =
      [talk 3, talk 4, talk 5, talk 6, talk 7, talk 8, talk 9, talk 10, talk 11, talk 12]"
    by (simp add: with_history_def)
  obtain request where r: "snd (handleUserMessage_begin (typing '' hi '')) = Some request"
    by (simp add: handleUserMessage_begin_def typing_def GurujiChat_def trim_def ascii_def
          is_whitespace_def addMessageToChat_def Let_def)
  from client_sends_last_ten
         [of "with_history [talk 1, talk 2, talk 3, talk 4, talk 5, talk 6, talk 7, talk 8,
                            talk 9, talk 10, talk 11, talk 12]"] l d
    client_sends_last_ten [of "typing '' hi ''" request] r
  show ?thesis by simp
qed

lemma shows_assistant_string:
  "addMessageToChat (Some (JStr s)) False c = Inr c1 \<Longrightarrow>
   shows_assistant c s (push (msg_object ''assistant'' (Some (JStr s))) c1)"
  by (auto simp: addMessageToChat_def push_def shows_assistant_def)

lemma shows_assistant_hidden:
  "shows_assistant (hideTypingIndicator c) s c' = shows_assistant c s c'"
  by (simp add: shows_assistant_def hideTypingIndicator_fields)

lemma shows_assistant_finally:
  "shows_assistant c s
     (c'\<lparr>isProcessing := False, sendBtn_disabled := False, userInput_disabled := False\<rparr>) =
   shows_assistant c s c'"
  by (simp add: shows_assistant_def)

lemma handleNetworkError_shows:
  "\<exists>c'. handleNetworkError c = Inr c' \<and> shows_assistant c networkErrorMessage c'"
  by (simp add: handleNetworkError_def Let_def addMessageToChat_def push_def
        shows_assistant_def)

lemma handleUserMessage_end_thrown:
  assumes "handleUserMessage_try outcome u c = Inl thrown"
    and "chatWindow thrown = chatWindow c" and "messageHistory thrown = messageHistory c"
  shows "shows_assistant c networkErrorMessage (handleUserMessage_end outcome u c)"
proof -
  from handleNetworkError_shows [of "hideTypingIndicator thrown"] obtain c' where
    c': "handleNetworkError (hideTypingIndicator thrown) = Inr c'"
        "shows_assistant (hideTypingIndicator thrown) networkErrorMessage c'" by blast
  from c'(2) assms(2,3) have "shows_assistant c networkErrorMessage c'"
    by (simp add: shows_assistant_def hideTypingIndicator_fields)
  with assms(1) c'(1) show ?thesis
    by (simp add: handleUserMessage_end_def Let_def shows_assistant_finally)
qed

lemma handleUserMessage_end_done:
  assumes "handleUserMessage_try outcome u c = Inr done"
  shows "shows_assistant c s (handleUserMessage_end outcome u c) = shows_assistant c s done"
  using assms by (simp add: handleUserMessage_end_def Let_def shows_assistant_finally)

lemma handleUserMessage_try_thrown:
  "handleUserMessage_try outcome u c = Inl thrown \<Longrightarrow>
   chatWindow thrown = chatWindow c \<and> messageHistory thrown = messageHistory c"
  by (auto simp: handleUserMessage_try_def Let_def hideTypingIndicator_fields
           split: sum.splits if_splits)

lemma addMessageToChat_string: "addMessageToChat v False c = Inr c1 \<Longrightarrow> \<exists>s. v = Some (JStr s)"
  by (auto simp: addMessageToChat_def split: option.splits json.splits)

lemma handleAPIError_done:
  assumes "handleAPIError error u c = Inr c'"
  shows "\<exists>s. shows_assistant c s c'"
proof -
  from assms obtain fb where fb: "js_get error Fallback = Inr fb"
    by (cases "js_get error Fallback") (simp_all add: handleAPIError_def)
  define m where "m = (if js_truthy fb then fb
     else map_option JStr (js_index errorMessages (random_index u errorMessages)))"
  from assms fb obtain c1 where c1: "addMessageToChat m False c = Inr c1"
     and c'_def: "c' = push (msg_object ''assistant'' m) c1"
    by (cases "addMessageToChat m False c") (auto simp: handleAPIError_def Let_def m_def)
  from addMessageToChat_string [OF c1] obtain s where "m = Some (JStr s)" by blast
  with c1 c'_def shows_assistant_string [of s c c1] show ?thesis by auto
qed

lemma handleUserMessage_try_done:
  assumes "handleUserMessage_try outcome u c = Inr done"
  shows "\<exists>s. shows_assistant c s done"
proof -
  from assms obtain response where r: "sendToBackend_result outcome = Inr response"
    by (cases "sendToBackend_result outcome") (simp_all add: handleUserMessage_try_def)
  from assms r obtain success where sc: "js_get response Success = Inr success"
    by (cases "js_get response Success") (simp_all add: handleUserMessage_try_def Let_def)
  show ?thesis
  proof (cases "js_truthy success")
    case True
    from sc obtain content where ct: "js_get response Content = Inr content"
      by (cases response) auto
    from assms r sc True ct obtain c2 where
      c2: "addMessageToChat content False (hideTypingIndicator c) = Inr c2"
      and d: "done = push (msg_object ''assistant'' content) c2"
      by (cases "addMessageToChat content False (hideTypingIndicator c)")
         (auto simp: handleUserMessage_try_def Let_def)
    from addMessageToChat_string [OF c2] obtain s where "content = Some (JStr s)" by blast
    with c2 d shows_assistant_string [of s "hideTypingIndicator c" c2]
    show ?thesis by (auto simp: shows_assistant_hidden)
  next
    case False
    with assms r sc have "handleAPIError response u (hideTypingIndicator c) = Inr done"
      by (cases "handleAPIError response u (hideTypingIndicator c)")
         (auto simp: handleUserMessage_try_def Let_def)
    from handleAPIError_done [OF this] show ?thesis by (simp add: shows_assistant_hidden)
  qed
qed

lemma handleUserMessage_end_shows:
  "\<exists>s. shows_assistant c s (handleUserMessage_end outcome u c)"
proof (cases "handleUserMessage_try outcome u c")
  case (Inl thrown)
  from handleUserMessage_end_thrown [OF Inl] handleUserMessage_try_thrown [OF Inl]
  show ?thesis by blast
next
  case (Inr finished)
  from handleUserMessage_try_done [OF Inr] handleUserMessage_end_done [OF Inr]
  show ?thesis by blast
qed

lemma networkErrorMessage_not_local: "networkErrorMessage \<notin> set errorMessages"
  by (simp add: networkErrorMessage_def errorMessages_def)

lemma errorMessages_pick:
  assumes "0 \<le> u" "u < 1"
  shows "\<exists>s \<in> set errorMessages.
           js_index errorMessages (random_index u errorMessages) = Some s"
  by (rule js_index_random [OF assms]) (simp add: errorMessages_def)

lemma end_non_ok_fallback:
  assumes "js_get data Fallback = Inr (Some (JStr s))" and "s \<noteq> []"
  shows "shows_assistant c s (handleUserMessage_end (Responded False data) u c)"
proof -
  have "handleUserMessage_try (Responded False data) u c =
          Inr (push (msg_object ''assistant'' (Some (JStr s)))
                 ((hideTypingIndicator c)\<lparr>chatWindow := chatWindow c @ [(s, False)]\<rparr>))"
    using assms
    by (simp add: handleUserMessage_try_def sendToBackend_result_def Let_def ascii_def
          addMessageToChat_def hideTypingIndicator_fields)
  from handleUserMessage_end_done [OF this, of s] show ?thesis
    by (simp add: shows_assistant_def push_def hideTypingIndicator_fields)
qed

lemma end_non_ok_no_fallback:
  assumes "js_get data Fallback = Inr fb" and "\<not> js_truthy fb"
  shows "shows_assistant c networkErrorMessage (handleUserMessage_end (Responded False data) u c)"
proof -
  have "handleUserMessage_try (Responded False data) u c = Inl c"
    using assms by (simp add: handleUserMessage_try_def sendToBackend_result_def)
  from handleUserMessage_end_thrown [OF this] show ?thesis by simp
qed

lemma end_rejected:
  "shows_assistant c networkErrorMessage (handleUserMessage_end Rejected u c)"
proof -
  have "handleUserMessage_try Rejected u c = Inl c"
    by (simp add: handleUserMessage_try_def sendToBackend_result_def)
  from handleUserMessage_end_thrown [OF this] show ?thesis by simp
qed

lemma end_ok_failure:
  assumes "js_get data Success = Inr success" and "\<not> js_truthy success"
    and "js_get data Fallback = Inr fb"
    and "(if js_truthy fb then fb
          else map_option JStr (js_index errorMessages (random_index u errorMessages))) =
         Some (JStr s)"
  shows "shows_assistant c s (handleUserMessage_end (Responded True data) u c)"
proof -
  have "handleUserMessage_try (Responded True data) u c =
          Inr (push (msg_object ''assistant'' (Some (JStr s)))
                 ((hideTypingIndicator c)\<lparr>chatWindow := chatWindow c @ [(s, False)]\<rparr>))"
    using assms
    by (simp add: handleUserMessage_try_def sendToBackend_result_def Let_def
          handleAPIError_def addMessageToChat_def hideTypingIndicator_fields)
  from handleUserMessage_end_done [OF this, of s] show ?thesis
    by (simp add: shows_assistant_def push_def hideTypingIndicator_fields)
qed

text \<open>
  C5, as amended. For a call that ends on the state \<open>c\<close> with the value \<open>u\<close> of
  \<open>Math.random()\<close>: a response that is not ok and carries a non-empty fallback string
  shows that string; a response that is not ok and carries no fallback shows the fixed
  network message, as does a request that gets no response; an ok response whose
  \<open>success\<close> is falsy shows its fallback string if it has one and otherwise one of the
  four local phrases. The network message is none of the local phrases. In every case,
  whatever the outcome, the text shown is one new bubble and the same text is appended to
  the history as one assistant message.
\<close>

theorem failed_call_shows_fallback:
  "(js_get data Fallback = Inr (Some (JStr s)) \<and> s \<noteq> [] \<longrightarrow>
      shows_assistant c s (handleUserMessage_end (Responded False data) u c)) \<and>
   (js_get data Fallback = Inr fb \<and> \<not> js_truthy fb \<longrightarrow>
      shows_assistant c networkErrorMessage
        (handleUserMessage_end (Responded False data) u c)) \<and>
   shows_assistant c networkErrorMessage (handleUserMessage_end Rejected u c) \<and>
   (js_get data Success = Inr success \<and> \<not> js_truthy success \<and>
    js_get data Fallback = Inr (Some (JStr s)) \<and> s \<noteq> [] \<longrightarrow>
      shows_assistant c s (handleUserMessage_end (Responded True data) u c)) \<and>
   (js_get data Success = Inr success \<and> \<not> js_truthy success \<and>
    js_get data Fallback = Inr fb \<and> \<not> js_truthy fb \<and> 0 \<le> u \<and> u < 1 \<longrightarrow>
      (\<exists>phrase \<in> set errorMessages.
         shows_assistant c phrase (handleUserMessage_end (Responded True data) u c))) \<and>
   networkErrorMessage \<notin> set errorMessages \<and>
   (\<exists>shown. shows_assistant c shown (handleUserMessage_end outcome u c))"
proof -
  have local: "\<exists>phrase \<in> set errorMessages.
         shows_assistant c phrase (handleUserMessage_end (Responded True data) u c)"
    if "js_get data Success = Inr success" "\<not> js_truthy success"
       "js_get data Fallback = Inr fb" "\<not> js_truthy fb" "0 \<le> u" "u < 1"
  proof -
    from errorMessages_pick [OF that(5,6)] obtain phrase where
      p: "phrase \<in> set errorMessages"
         "js_index errorMessages (random_index u errorMessages) = Some phrase" by blast
    from that(4) p(2) have "(if js_truthy fb then fb
          else map_option JStr (js_index errorMessages (random_index u errorMessages))) =
         Some (JStr phrase)" by simp
    from end_ok_failure [OF that(1,2,3) this] p(1) show ?thesis by blast
  qed
  have given: "shows_assistant c s (handleUserMessage_end (Responded True data) u c)"
    if "js_get data Success = Inr success" "\<not> js_truthy success"
       "js_get data Fallback = Inr (Some (JStr s))" "s \<noteq> []"
  proof -
    from that(4) have "(if js_truthy (Some (JStr s)) then Some (JStr s)
          else map_option JStr (js_index errorMessages (random_index u errorMessages))) =
         Some (JStr s)" by simp
    from end_ok_failure [OF that(1,2,3) this] show ?thesis .
  qed
  from local given show ?thesis
    using end_non_ok_fallback [of data s c u] end_non_ok_no_fallback [of data fb c u]
      end_rejected [of c u] networkErrorMessage_not_local
      handleUserMessage_end_shows [of c outcome u]
    by blast
qed

lemma relay_failure_body_fallback:
  "js_get relay_failure_body Fallback = Inr (Some (JStr (fallbackResponses ! 2)))"
  by (simp add: relay_failure_body_def chat_respond_def generateResponse_catch_def
        http_error_def js_index_def random_index_def fallbackResponses_def ascii_def)

lemma rate_limited_body_fallback: "js_get rate_limited_body Fallback = Inr None"
  by (simp add: rate_limited_body_def ascii_def)

theorem failed_call_shows_fallback_witness:
  "shows_assistant in_flight (fallbackResponses ! 2)
     (handleUserMessage_end (Responded False relay_failure_body) (1 / 2) in_flight) \<and>
   shows_assistant in_flight networkErrorMessage
     (handleUserMessage_end (Responded False rate_limited_body) (1 / 2) in_flight) \<and>
   shows_assistant in_flight networkErrorMessage
     (handleUserMessage_end Rejected (1 / 2) in_flight) \<and>
   shows_assistant in_flight (ascii ''Breathe.'')
     (handleUserMessage_end (Responded True (soft_failure (Some (JStr (ascii ''Breathe.'')))))
        (1 / 2) in_flight) \<and>
   fst (last (chatWindow
     (handleUserMessage_end (Responded True (soft_failure None)) (1 / 2) in_flight)))
     \<in> set errorMessages"
proof -
  have ne: "fallbackResponses ! 2 \<noteq> []" "ascii ''Breathe.'' \<noteq> []"
    by (simp_all add: fallbackResponses_def ascii_def)
  have none: "\<not> js_truthy None" by simp
  have s1: "js_get (soft_failure (Some (JStr (ascii ''Breathe.'')))) Success =
              Inr (Some (JBool False))"
           "js_get (soft_failure (Some (JStr (ascii ''Breathe.'')))) Fallback =
              Inr (Some (JStr (ascii ''Breathe.'')))"
    by (simp_all add: soft_failure_def ascii_def)
  have s2: "js_get (soft_failure None) Success = Inr (Some (JBool False))"
           "js_get (soft_failure None) Fallback = Inr None"
    by (simp_all add: soft_failure_def ascii_def)
  have f: "\<not> js_truthy (Some (JBool False))" by simp
  have u: "(0::rat) \<le> 1 / 2" "(1 / 2 :: rat) < 1" by simp_all
  from failed_call_shows_fallback
         [of relay_failure_body "fallbackResponses ! 2" in_flight "1 / 2"]
       relay_failure_body_fallback ne(1)
  have 1: "shows_assistant in_flight (fallbackResponses ! 2)
     (handleUserMessage_end (Responded False relay_failure_body) (1 / 2) in_flight)"
    by blast
  from failed_call_shows_fallback [of rate_limited_body _ in_flight "1 / 2" None]
       rate_limited_body_fallback none
  have 2: "shows_assistant in_flight networkErrorMessage
     (handleUserMessage_end (Responded False rate_limited_body) (1 / 2) in_flight)"
    and 3: "shows_assistant in_flight networkErrorMessage
     (handleUserMessage_end Rejected (1 / 2) in_flight)"
    by blast+
  from failed_call_shows_fallback
         [of "soft_failure (Some (JStr (ascii ''Breathe.'')))" "ascii ''Breathe.''"
             in_flight "1 / 2" _ "Some (JBool False)"]
       s1 ne(2) f
  have 4: "shows_assistant in_flight (ascii ''Breathe.'')
     (handleUserMessage_end (Responded True (soft_failure (Some (JStr (ascii ''Breathe.'')))))
        (1 / 2) in_flight)"
    by blast
  from failed_call_shows_fallback
         [of "soft_failure None" _ in_flight "1 / 2" None "Some (JBool False)"]
       s2 none f u
  have "\<exists>phrase \<in> set errorMessages. shows_assistant in_flight phrase
          (handleUserMessage_end (Responded True (soft_failure None)) (1 / 2) in_flight)"
    by blast
  then have 5: "fst (last (chatWindow
     (handleUserMessage_end (Responded True (soft_failure None)) (1 / 2) in_flight)))
     \<in> set errorMessages"
    by (auto simp: shows_assistant_def)
  from 1 2 3 4 5 show ?thesis by blast
qed

text \<open>
  C5 as stated fails: the relay's rate limiter answers 429 with a body that has no
  fallback; the text the client then shows, and appends, is the network message, which is
  none of the local phrases.
\<close>

theorem failed_call_without_fallback_counterexample:
  "js_get rate_limited_body Fallback = Inr None \<and>
   shows_assistant in_flight networkErrorMessage
     (handleUserMessage_end (Responded False rate_limited_body) (1 / 2) in_flight) \<and>
   fst (last (chatWindow
     (handleUserMessage_end (Responded False rate_limited_body) (1 / 2) in_flight)))
     \<notin> set errorMessages"
proof -
  have none: "\<not> js_truthy None" by simp
  from end_non_ok_no_fallback [OF rate_limited_body_fallback none, of in_flight "1 / 2"]
  have s: "shows_assistant in_flight networkErrorMessage
     (handleUserMessage_end (Responded False rate_limited_body) (1 / 2) in_flight)" .
  then have "fst (last (chatWindow
     (handleUserMessage_end (Responded False rate_limited_body) (1 / 2) in_flight))) =
     networkErrorMessage"
    by (simp add: shows_assistant_def)
  with s rate_limited_body_fallback networkErrorMessage_not_local show ?thesis by simp
qed

end
